theory Spec2Isabelle
  imports Main
begin

section \<open>Localized type information\<close>

text \<open>
  Modelled from the spec: the declaration of \<open>LocalizedTypeInfo\<close> (and of the symbol
  information and source locations inside it) lives in the API package, outside these
  sources. The specification's data model names the fields of a node; the records below
  keep those that the extension's code reads, under the names the code reads them by,
  each optional field as an \<open>option\<close> (\<open>None\<close> is JavaScript's \<open>undefined\<close>). Boolean
  flags are only ever tested for truthiness, so an absent flag is \<open>False\<close>.
\<close>

type_synonym TypeId = string

type_synonym SourceFileLocation = "string \<times> nat \<times> nat"

text \<open>Literal values: the code only ever converts them to text.\<close>

datatype jsval = JString string | JNumber int | JBoolean bool

record LocalizedSymbolInfo =
  name :: "string option"
  anonymous :: bool
  property :: bool
  isArgument :: bool
  insideClassOrInterface :: bool

text \<open>
  \<open>id'\<close> is the field \<open>_id\<close>, \<open>alias'\<close> the field \<open>alias\<close> and \<open>info_name\<close> the
  field \<open>name\<close>. \<open>location\<close> and \<open>val\<close> (the field \<open>value\<close>) are read by the flattener
  past the type checker; \<open>location\<close> keeps only whether the value read is truthy.
  \<open>children\<close> keeps the length of the array.
\<close>

record LocalizedTypeInfo =
  id' :: "TypeId option"
  kind :: "string option"
  kindText :: "string option"
  primitiveKind :: "string option"
  alias' :: "string option"
  symbol :: "LocalizedSymbolInfo option"
  info_name :: "string option"
  purpose :: "string option"
  optional :: bool
  readonly :: bool
  rest :: bool
  dimension :: "nat option"
  children :: "nat option"
  locations :: "SourceFileLocation list option"
  location :: bool
  val :: "jsval option"

text \<open>An object with none of the fields set.\<close>

definition no_info :: LocalizedTypeInfo where
  "no_info = \<lparr> id' = None, kind = None, kindText = None, primitiveKind = None,
     alias' = None, symbol = None, info_name = None, purpose = None, optional = False,
     readonly = False, rest = False, dimension = None, children = None,
     locations = None, location = False, val = None \<rparr>"

datatype js_error = Error string | TypeError

text \<open>Truthiness of a string: the empty string is falsy.\<close>

definition truthy :: "string \<Rightarrow> bool" where
  "truthy s = (s \<noteq> [])"

section \<open>Display metadata: \<open>getMeta\<close>\<close>

datatype TreeItemCollapsibleState = NoChildren | Collapsed | Expanded

datatype TypeTreeItemContextValue = Declared

record ThemeIcon =
  icon_id :: string
  icon_color :: "string option"

record TypeTreeItemMeta =
  label :: string
  description :: "string option"
  contextValue :: "TypeTreeItemContextValue option"
  icon :: "ThemeIcon option"
  collapsibleState :: TreeItemCollapsibleState

text \<open>
  Modelled from the spec: the configuration toggles and the API's \<open>localizePurpose\<close> are
  outside these sources; they are parameters of the model.
\<close>

record config =
  iconsEnabled :: bool
  iconColorsEnabled :: bool
  readonlyEnabled :: bool
  localizePurpose :: "string \<Rightarrow> string"

definition getCollapsibleState :: "LocalizedTypeInfo \<Rightarrow> int \<Rightarrow> TreeItemCollapsibleState" where
  "getCollapsibleState info depth =
     (if (case children info of None \<Rightarrow> 0 | Some n \<Rightarrow> n) = 0 then NoChildren
      else if purpose info = Some ''jsx_properties'' then Expanded
      else if depth = 1 then Expanded else Collapsed)"

definition getContextValue :: "LocalizedTypeInfo \<Rightarrow> TypeTreeItemContextValue option" where
  "getContextValue info =
     (case locations info of
        None \<Rightarrow> None
      | Some ls \<Rightarrow> if length ls > 0 then Some Declared else None)"

type_synonym IconId = "string \<times> string option"

definition primitiveIcon :: "string option \<Rightarrow> js_error + IconId" where
  "primitiveIcon pk =
     (if pk \<in> {Some ''essymbol'', Some ''unique_symbol'', Some ''string''}
        then Inr (''symbol-string'', None)
      else if pk \<in> {Some ''bigint'', Some ''number''}
        then Inr (''symbol-numeric'', None)
      else if pk = Some ''boolean''
        then Inr (''symbol-boolean'', None)
      else if pk \<in> {Some ''unknown'', Some ''any'', Some ''void'', Some ''undefined'', Some ''null''}
        then Inr (''symbol-null'', None)
      else if pk = Some ''never''
        then Inr (''error'', Some ''symbolIcon.nullForeground'')
      else Inl (Error ''Unhandled primitive case''))"

definition kindIcon :: "LocalizedTypeInfo \<Rightarrow> js_error + IconId" where
  "kindIcon info =
     (let k = kind info in
      if k = Some ''primitive'' then primitiveIcon (primitiveKind info)
      else if k = Some ''object'' then Inr (''symbol-object'', None)
      else if k = Some ''type_parameter'' then Inr (''symbol-type-parameter'', None)
      else if k \<in> {Some ''string_mapping'', Some ''template_literal'', Some ''string_literal''}
        then Inr (''symbol-text'', None)
      else if k \<in> {Some ''bigint_literal'', Some ''number_literal''}
        then Inr (''symbol-number'', None)
      else if k = Some ''boolean_literal'' then Inr (''symbol-boolean'', None)
      else if k = Some ''enum'' then Inr (''symbol-enum'', None)
      else if k = Some ''enum_literal'' then Inr (''symbol-enum-member'', None)
      else if k \<in> {Some ''tuple'', Some ''array''} then Inr (''symbol-array'', None)
      else if k = Some ''intrinsic'' then Inr (''symbol-keyword'', None)
      else if k = Some ''conditional''
        then Inr (''question'', Some ''symbolIcon.keywordForeground'')
      else if k \<in> {Some ''substitution'', Some ''non_primitive''}
        then Inr (''symbol-misc'', None)
      else if k \<in> {Some ''union'', Some ''intersection''} then Inr (''symbol-struct'', None)
      else if k \<in> {Some ''signature'', Some ''function''}
        then (if (case symbol info of None \<Rightarrow> False | Some s \<Rightarrow> insideClassOrInterface s)
              then Inr (''symbol-method'', None)
              else Inr (''symbol-function'', None))
      else if k = Some ''interface'' then Inr (''symbol-interface'', None)
      else if k = Some ''namespace'' then Inr (''symbol-namespace'', None)
      else if k = Some ''module'' then Inr (''symbol-module'', None)
      else if k = Some ''class'' then Inr (''symbol-class'', None)
      else if k \<in> {Some ''index_info'', Some ''indexed_access'', Some ''index''}
        then Inr (''key'', Some ''symbolIcon.keyForeground'')
      else Inr (''symbol-misc'', None))"

text \<open>The inner function \<open>_getIcon\<close>.\<close>

definition getIconIds :: "LocalizedTypeInfo \<Rightarrow> js_error + IconId" where
  "getIconIds info =
     (if (case symbol info of None \<Rightarrow> False | Some s \<Rightarrow> property s)
        then Inr (''symbol-field'', None)
      else if (case symbol info of None \<Rightarrow> False | Some s \<Rightarrow> isArgument s)
        then Inr (''symbol-property'', None)
      else if purpose info = Some ''class_constructor''
        then Inr (''symbol-constructor'', None)
      else kindIcon info)"

text \<open>
  \<open>getIcon\<close> destructures the pair twice, \<open>const [id] = iconIds\<close> and
  \<open>let [colorId] = iconIds\<close>: both bindings take the first component.
\<close>

definition getIcon :: "config \<Rightarrow> LocalizedTypeInfo \<Rightarrow> js_error + ThemeIcon option" where
  "getIcon cfg info =
     (if \<not> iconsEnabled cfg then Inr None
      else case getIconIds info of
        Inl e \<Rightarrow> Inl e
      | Inr iconIds \<Rightarrow>
          (let i = fst iconIds;
               colorId = (if \<not> iconColorsEnabled cfg then ''icon.foreground'' else fst iconIds)
           in Inr (Some (if \<not> truthy colorId
                         then \<lparr> icon_id = i, icon_color = None \<rparr>
                         else \<lparr> icon_id = i, icon_color = Some colorId \<rparr>))))"

definition addDecorations :: "string \<Rightarrow> bool \<Rightarrow> bool \<Rightarrow> nat \<Rightarrow> string" where
  "addDecorations text rst opt dim =
     (let t1 = text @ concat (replicate dim ''[]'');
          t2 = (if opt then t1 @ ''?'' else t1)
      in if rst then ''...'' @ t2 else t2)"

definition getLabelByName :: "LocalizedTypeInfo \<Rightarrow> string option" where
  "getLabelByName info = info_name info"

definition getLabelByPurpose :: "config \<Rightarrow> LocalizedTypeInfo \<Rightarrow> string option" where
  "getLabelByPurpose cfg info =
     (case purpose info of
        None \<Rightarrow> None
      | Some p \<Rightarrow> if truthy p then Some (''<'' @ localizePurpose cfg p @ ''>'') else None)"

definition getLabelOverride :: "config \<Rightarrow> LocalizedTypeInfo \<Rightarrow> string option" where
  "getLabelOverride cfg info =
     (case getLabelByName info of Some n \<Rightarrow> Some n | None \<Rightarrow> getLabelByPurpose cfg info)"

definition symbolName :: "LocalizedTypeInfo \<Rightarrow> string option" where
  "symbolName info = (case symbol info of None \<Rightarrow> None | Some s \<Rightarrow> name s)"

definition getLabelBase :: "config \<Rightarrow> LocalizedTypeInfo \<Rightarrow> string" where
  "getLabelBase cfg info =
     (case getLabelOverride cfg info of
        Some l \<Rightarrow> l
      | None \<Rightarrow>
          if \<not> (case symbol info of None \<Rightarrow> False | Some s \<Rightarrow> anonymous s)
          then (case symbolName info of None \<Rightarrow> [] | Some n \<Rightarrow> n)
          else [])"

definition getLabel :: "config \<Rightarrow> LocalizedTypeInfo \<Rightarrow> string" where
  "getLabel cfg info =
     (let base = getLabelBase cfg info
      in if \<not> truthy base then base
         else addDecorations base (rest info) (optional info) 0)"

record DescriptionParts =
  alias_part :: "string option"
  base_part :: "string option"
  readonly_part :: bool

definition getDescriptionParts :: "config \<Rightarrow> LocalizedTypeInfo \<Rightarrow> DescriptionParts" where
  "getDescriptionParts cfg info =
     (if \<not> (case kindText info of None \<Rightarrow> False | Some t \<Rightarrow> truthy t)
      then \<lparr> alias_part = None, base_part = None, readonly_part = False \<rparr>
      else
        let decorate = (\<lambda>text. addDecorations text False False
                          (case dimension info of None \<Rightarrow> 0 | Some d \<Rightarrow> d));
            baseDescription = decorate (the (kindText info));
            nameOverridden = (case getLabelOverride cfg info of
                                None \<Rightarrow> False | Some l \<Rightarrow> truthy l);
            aliasDescriptionBase =
              (case alias' info of
                 Some a \<Rightarrow> Some a
               | None \<Rightarrow> if nameOverridden \<and> purpose info \<noteq> Some ''jsx_properties''
                         then symbolName info else None);
            aliasDescription =
              (case aliasDescriptionBase of
                 None \<Rightarrow> None
               | Some a \<Rightarrow> if truthy a then Some (decorate a) else Some a)
        in \<lparr> alias_part = aliasDescription, base_part = Some baseDescription,
             readonly_part = (readonly info \<and> readonlyEnabled cfg) \<rparr>)"

definition descriptionPartsToString :: "DescriptionParts \<Rightarrow> string option" where
  "descriptionPartsToString parts =
     (case base_part parts of
        None \<Rightarrow> None
      | Some base \<Rightarrow>
          if \<not> truthy base then None
          else
            let result = (case alias_part parts of
                            None \<Rightarrow> base
                          | Some a \<Rightarrow> if truthy a then a @ '' ('' @ base @ '')'' else base)
            in Some (if readonly_part parts then ''readonly '' @ result else result))"

definition getDescription :: "config \<Rightarrow> LocalizedTypeInfo \<Rightarrow> string option" where
  "getDescription cfg info = descriptionPartsToString (getDescriptionParts cfg info)"

text \<open>
  \<open>getMeta\<close> computes label, description and collapsible state first; the context value
  and the icon are computed while the result object is built, so an exception of the
  icon lookup is the exception of \<open>getMeta\<close>.
\<close>

definition getMeta :: "config \<Rightarrow> LocalizedTypeInfo \<Rightarrow> int \<Rightarrow> js_error + TypeTreeItemMeta" where
  "getMeta cfg info depth =
     (let l = getLabel cfg info;
          d = getDescription cfg info;
          c = getCollapsibleState info depth;
          cv = getContextValue info
      in case getIcon cfg info of
           Inl e \<Rightarrow> Inl e
         | Inr ic \<Rightarrow> Inr \<lparr> label = l, description = d, contextValue = cv,
                           icon = ic, collapsibleState = c \<rparr>)"

section \<open>The flattener: \<open>generateFlattenedTypeDefinition\<close>\<close>

text \<open>
  Modelled from the spec: the type of the entries that \<open>localizeChildren\<close> answers is
  declared in the API package. An entry is a localized node or an error marker, an
  object whose only field is \<open>error\<close>.
\<close>

datatype child = ChildError | ChildInfo LocalizedTypeInfo

text \<open>
  Modelled from the spec: the unlocalized tree that the state manager holds is declared in
  the API package. Of it the command reads \<open>symbolMeta.name\<close> only: \<open>symbolMeta\<close> is that
  name, \<open>None\<close> when \<open>symbolMeta\<close> is absent.
\<close>

record TypeInfo =
  typeId :: TypeId
  symbolMeta :: "string option"

text \<open>
  Modelled from the spec: the resolver of the API package and the server's
  \<open>getTypeTreeAtLocation\<close> are outside these sources; they answer from the compiler and
  are parameters of the model. \<open>localize\<close> answers the localized node of a tree,
  \<open>localizeChildren\<close> the ordered list of a node's children, each localized or an error
  marker; \<open>None\<close> is a falsy answer.
\<close>

record services =
  getTypeTreeAtLocation :: "SourceFileLocation option \<Rightarrow> TypeInfo option"
  localize :: "TypeInfo option \<Rightarrow> LocalizedTypeInfo option"
  localizeChildren :: "LocalizedTypeInfo \<Rightarrow> child list"

subsection \<open>Text of values\<close>

function decimal :: "nat \<Rightarrow> string" where
  "decimal n = (if n < 10 then [''0123456789'' ! n]
                else decimal (n div 10) @ [''0123456789'' ! (n mod 10)])"
  by pat_completeness auto
termination
  by (relation "measure (\<lambda>n. n)") auto

definition toString :: "jsval \<Rightarrow> string" where
  "toString v =
     (case v of
        JString s \<Rightarrow> s
      | JNumber n \<Rightarrow> (if n < 0 then ''-'' @ decimal (nat (- n)) else decimal (nat n))
      | JBoolean b \<Rightarrow> (if b then ''true'' else ''false''))"

text \<open>A value inside a template literal: \<open>undefined\<close> has a text there.\<close>

definition template :: "jsval option \<Rightarrow> string" where
  "template v = (case v of None \<Rightarrow> ''undefined'' | Some x \<Rightarrow> toString x)"

text \<open>The double quote, as a text.\<close>

definition dquote :: string where
  "dquote = [CHR 0x22]"

text \<open>\<open>Array.prototype.join\<close>.\<close>

fun join :: "string \<Rightarrow> string list \<Rightarrow> string" where
  "join sep [] = []"
| "join sep [x] = x"
| "join sep (x # y # ys) = x @ sep @ join sep (y # ys)"

subsection \<open>Suspended calls\<close>

text \<open>
  \<open>generateFlattenedTypeDefinition\<close> is an \<open>async\<close> function. A call runs at once up to
  its first \<open>await\<close>: the cycle guard on the shared set \<open>seenRefs\<close> and the choice of the
  branch. It then is suspended on the resolver's promise, and what it does when that
  promise is fulfilled, it does at once again: it starts the calls for all its children,
  in their order. Which of the suspended calls is resumed next is up to the promises.

  A \<open>task\<close> is the state of one call: fulfilled with a text, rejected, suspended on
  \<open>localizeChildren\<close> or on the resolution of a reference, or waiting for the calls it
  started (\<open>Joined\<close> with the text before, between and after the children's texts;
  \<open>Property\<close> for the callback that puts a property's name before its type).
\<close>

datatype task =
    Settled string
  | Rejected
  | AwaitChildren LocalizedTypeInfo
  | AwaitReference "SourceFileLocation option"
  | Property string task
  | Joined string string string "task list"

definition circular :: string where
  "circular = ''any // Circular reference''"

definition unresolved :: string where
  "unresolved = ''any // Failed to resolve reference''"

definition has_id :: "LocalizedTypeInfo \<Rightarrow> bool" where
  "has_id info = (case id' info of None \<Rightarrow> False | Some i \<Rightarrow> truthy i)"

text \<open>The branches of the function body, up to the first \<open>await\<close> of each.\<close>

definition dispatch :: "LocalizedTypeInfo \<Rightarrow> task" where
  "dispatch info =
     (let k = kind info in
      if k = Some ''reference'' \<and> location info then
        (case locations info of
           None \<Rightarrow> Rejected
         | Some ls \<Rightarrow> AwaitReference (case ls of [] \<Rightarrow> None | l # _ \<Rightarrow> Some l))
      else if k = Some ''primitive'' then
        Settled (case primitiveKind info of None \<Rightarrow> ''any'' | Some p \<Rightarrow> p)
      else if k = Some ''object'' then AwaitChildren info
      else if k = Some ''array'' then AwaitChildren info
      else if k = Some ''tuple'' then AwaitChildren info
      else if k = Some ''union'' then AwaitChildren info
      else if k = Some ''intersection'' then AwaitChildren info
      else if k = Some ''string_literal'' then
        Settled (dquote @ template (val info) @ dquote)
      else if k = Some ''number_literal'' then
        (case val info of None \<Rightarrow> Rejected | Some v \<Rightarrow> Settled (toString v))
      else if k = Some ''boolean_literal'' then
        (case val info of None \<Rightarrow> Rejected | Some v \<Rightarrow> Settled (toString v))
      else Settled ''any'')"

text \<open>A call up to its first \<open>await\<close>: the cycle guard, then the branch.\<close>

definition start :: "LocalizedTypeInfo \<Rightarrow> TypeId set \<Rightarrow> task \<times> TypeId set" where
  "start info seenRefs =
     (if has_id info \<and> the (id' info) \<in> seenRefs then (Settled circular, seenRefs)
      else (dispatch info,
            if has_id info then insert (the (id' info)) seenRefs else seenRefs))"

text \<open>An error marker handed to the function as a node: every field reads \<open>undefined\<close>.\<close>

definition as_info :: "child \<Rightarrow> LocalizedTypeInfo" where
  "as_info c = (case c of ChildError \<Rightarrow> no_info | ChildInfo i \<Rightarrow> i)"

definition propertyLabel :: "LocalizedTypeInfo \<Rightarrow> string" where
  "propertyLabel c =
     (case symbolName c of None \<Rightarrow> ''unknown'' | Some n \<Rightarrow> n) @ (if optional c then ''?'' else [])"

text \<open>
  \<open>children.map\<close> over the calls, in order, on the shared set. For an object the
  callback answers \<open>null\<close> for an error marker, and the \<open>null\<close>s are filtered out before
  the join: the marker starts no call and has no entry.
\<close>

fun startAll :: "LocalizedTypeInfo list \<Rightarrow> TypeId set \<Rightarrow> task list \<times> TypeId set" where
  "startAll [] seenRefs = ([], seenRefs)"
| "startAll (c # cs) seenRefs =
     (let (t, seen1) = start c seenRefs;
          (ts, seen2) = startAll cs seen1
      in (t # ts, seen2))"

fun startProperties :: "child list \<Rightarrow> TypeId set \<Rightarrow> task list \<times> TypeId set" where
  "startProperties [] seenRefs = ([], seenRefs)"
| "startProperties (ChildError # cs) seenRefs = startProperties cs seenRefs"
| "startProperties (ChildInfo c # cs) seenRefs =
     (let (t, seen1) = start c seenRefs;
          (ts, seen2) = startProperties cs seen1
      in (Property (propertyLabel c) t # ts, seen2))"

text \<open>A call suspended on \<open>localizeChildren\<close> goes on with the children.\<close>

definition continueChildren ::
  "services \<Rightarrow> LocalizedTypeInfo \<Rightarrow> TypeId set \<Rightarrow> task \<times> TypeId set" where
  "continueChildren sv info seenRefs =
     (let cs = localizeChildren sv info; k = kind info in
      if k = Some ''object'' then
        (if cs = [] then (Settled ''{}'', seenRefs)
         else let (ts, seen1) = startProperties cs seenRefs
              in (Joined ''{ '' ''; '' '' }'' ts, seen1))
      else if k = Some ''array'' then
        (case cs of
           [] \<Rightarrow> (Settled ''any[]'', seenRefs)
         | c # _ \<Rightarrow> (let (t, seen1) = start (as_info c) seenRefs
                     in (Joined [] [] ''[]'' [t], seen1)))
      else
        (let (ts, seen1) = startAll (map as_info cs) seenRefs
         in if k = Some ''tuple'' then (Joined ''['' '', '' '']'' ts, seen1)
            else if k = Some ''union'' then (Joined [] '' | '' [] ts, seen1)
            else (Joined [] '' & '' [] ts, seen1)))"

text \<open>A call suspended on a reference goes on with the resolved node.\<close>

definition continueReference ::
  "services \<Rightarrow> SourceFileLocation option \<Rightarrow> TypeId set \<Rightarrow> task \<times> TypeId set" where
  "continueReference sv loc seenRefs =
     (case localize sv (getTypeTreeAtLocation sv loc) of
        Some resolvedTypeInfo \<Rightarrow> start resolvedTypeInfo seenRefs
      | None \<Rightarrow> (Settled unresolved, seenRefs))"

subsection \<open>Schedules\<close>

text \<open>The number of suspended calls of a task.\<close>

fun pending :: "task \<Rightarrow> nat" where
  "pending (Settled s) = 0"
| "pending Rejected = 0"
| "pending (AwaitChildren info) = 1"
| "pending (AwaitReference loc) = 1"
| "pending (Property l t) = pending t"
| "pending (Joined a sep b ts) = sum_list (map pending ts)"

text \<open>
  \<open>resume sv k t seenRefs\<close> resumes the suspended call number \<open>k\<close> of \<open>t\<close>, counted from
  the left and from 0.
\<close>

fun resume :: "services \<Rightarrow> nat \<Rightarrow> task \<Rightarrow> TypeId set \<Rightarrow> task \<times> TypeId set"
  and resumeList :: "services \<Rightarrow> nat \<Rightarrow> task list \<Rightarrow> TypeId set \<Rightarrow> task list \<times> TypeId set"
where
  "resume sv k (Settled s) seenRefs = (Settled s, seenRefs)"
| "resume sv k Rejected seenRefs = (Rejected, seenRefs)"
| "resume sv k (AwaitChildren info) seenRefs = continueChildren sv info seenRefs"
| "resume sv k (AwaitReference loc) seenRefs = continueReference sv loc seenRefs"
| "resume sv k (Property l t) seenRefs =
     (let (t', seen1) = resume sv k t seenRefs in (Property l t', seen1))"
| "resume sv k (Joined a sep b ts) seenRefs =
     (let (ts', seen1) = resumeList sv k ts seenRefs in (Joined a sep b ts', seen1))"
| "resumeList sv k [] seenRefs = ([], seenRefs)"
| "resumeList sv k (t # ts) seenRefs =
     (if k < pending t
      then (let (t', seen1) = resume sv k t seenRefs in (t' # ts, seen1))
      else (let (ts', seen1) = resumeList sv (k - pending t) ts seenRefs in (t # ts', seen1)))"

text \<open>
  A schedule names, step by step, the suspended call that is resumed; a number past the
  last suspended call names the last one.
\<close>

fun run :: "services \<Rightarrow> nat list \<Rightarrow> task \<times> TypeId set \<Rightarrow> task \<times> TypeId set" where
  "run sv [] st = st"
| "run sv (k # ks) (t, seenRefs) = run sv ks (resume sv (min k (pending t - 1)) t seenRefs)"

subsection \<open>Results\<close>

text \<open>
  The promise of a call: rejected as soon as one of the calls it waits for is rejected,
  fulfilled once all of them are fulfilled, pending otherwise.
\<close>

datatype outcome = Pending | Failed | Text string

definition text_of :: "outcome \<Rightarrow> string" where
  "text_of out = (case out of Text s \<Rightarrow> s | _ \<Rightarrow> [])"

definition settleAll :: "string \<Rightarrow> string \<Rightarrow> string \<Rightarrow> outcome list \<Rightarrow> outcome" where
  "settleAll a sep b outs =
     (if Failed \<in> set outs then Failed
      else if Pending \<in> set outs then Pending
      else Text (a @ join sep (map text_of outs) @ b))"

fun settle :: "task \<Rightarrow> outcome" where
  "settle (Settled s) = Text s"
| "settle Rejected = Failed"
| "settle (AwaitChildren info) = Pending"
| "settle (AwaitReference loc) = Pending"
| "settle (Property l t) =
     (case settle t of Text s \<Rightarrow> Text (l @ '': '' @ s) | out \<Rightarrow> out)"
| "settle (Joined a sep b ts) = settleAll a sep b (map settle ts)"

text \<open>
  The call of the command, with a fresh set, under a schedule: the state of its promise
  when the schedule is used up.
\<close>

definition generateFlattenedTypeDefinition ::
  "services \<Rightarrow> nat list \<Rightarrow> LocalizedTypeInfo \<Rightarrow> outcome" where
  "generateFlattenedTypeDefinition sv sched info = settle (fst (run sv sched (start info {})))"

subsection \<open>The command\<close>



section \<open>Vocabulary of the properties\<close>

subsection \<open>Display metadata\<close>

text \<open>The primitive kinds and the kinds that the icon lookup lists.\<close>

definition handledPrimitiveKinds :: "string option set" where
  "handledPrimitiveKinds = {Some ''essymbol'', Some ''unique_symbol'', Some ''string'',
     Some ''bigint'', Some ''number'', Some ''boolean'', Some ''unknown'', Some ''any'',
     Some ''void'', Some ''undefined'', Some ''null'', Some ''never''}"

definition handledIconKinds :: "string option set" where
  "handledIconKinds = {Some ''primitive'', Some ''object'', Some ''type_parameter'',
     Some ''string_mapping'', Some ''template_literal'', Some ''string_literal'',
     Some ''bigint_literal'', Some ''number_literal'', Some ''boolean_literal'',
     Some ''enum'', Some ''enum_literal'', Some ''tuple'', Some ''array'',
     Some ''intrinsic'', Some ''conditional'', Some ''substitution'',
     Some ''non_primitive'', Some ''union'', Some ''intersection'', Some ''signature'',
     Some ''function'', Some ''interface'', Some ''namespace'', Some ''module'',
     Some ''class'', Some ''index_info'', Some ''indexed_access'', Some ''index''}"

text \<open>
  The nodes at which the icon lookup reaches its \<open>throw\<close>: icons are enabled, no earlier
  branch answers, and the node is a primitive whose primitive kind is not listed.
\<close>

definition iconThrows :: "config \<Rightarrow> LocalizedTypeInfo \<Rightarrow> bool" where
  "iconThrows cfg info =
     (iconsEnabled cfg
      \<and> \<not> (case symbol info of None \<Rightarrow> False | Some s \<Rightarrow> property s \<or> isArgument s)
      \<and> purpose info \<noteq> Some ''class_constructor''
      \<and> kind info = Some ''primitive''
      \<and> primitiveKind info \<notin> handledPrimitiveKinds)"

subsection \<open>Example inputs\<close>

definition exampleConfig :: config where
  "exampleConfig = \<lparr> iconsEnabled = True, iconColorsEnabled = True, readonlyEnabled = True,
     localizePurpose = (\<lambda>p. p) \<rparr>"

text \<open>A primitive node without a primitive kind, declared in a source file.\<close>

definition barePrimitive :: LocalizedTypeInfo where
  "barePrimitive = no_info \<lparr> kind := Some ''primitive'', locations := Some [(''a.ts'', 0, 0)] \<rparr>"

text \<open>An interface node of a kind yet unknown, declared in a source file, with two children.\<close>

definition futureKindInfo :: LocalizedTypeInfo where
  "futureKindInfo = no_info \<lparr> kind := Some ''satisfies'', children := Some 2,
     locations := Some [(''a.ts'', 3, 5)] \<rparr>"

subsection \<open>The flattener\<close>






subsection \<open>Example trees\<close>

definition propertySymbol :: "string \<Rightarrow> LocalizedSymbolInfo" where
  "propertySymbol n = \<lparr> name = Some n, anonymous = False, property = True,
     isArgument = False, insideClassOrInterface = False \<rparr>"

definition primitiveInfo :: "TypeId \<Rightarrow> string \<Rightarrow> LocalizedTypeInfo" where
  "primitiveInfo i p = no_info \<lparr> id' := Some i, kind := Some ''primitive'',
     primitiveKind := Some p \<rparr>"


definition compositeInfo :: "TypeId \<Rightarrow> string \<Rightarrow> LocalizedTypeInfo" where
  "compositeInfo i k = no_info \<lparr> id' := Some i, kind := Some k \<rparr>"

text \<open>Services that answer the children from a table and resolve no location.\<close>

definition tableServices :: "(LocalizedTypeInfo \<times> child list) list \<Rightarrow> services" where
  "tableServices tab = \<lparr> getTypeTreeAtLocation = (\<lambda>loc. None), localize = (\<lambda>ti. None),
     localizeChildren = (\<lambda>info. case map_of tab info of None \<Rightarrow> [] | Some cs \<Rightarrow> cs) \<rparr>"

text \<open>The object type \<open>{ a: string, b?: number }\<close>.\<close>

definition abObject :: LocalizedTypeInfo where
  "abObject = compositeInfo ''1'' ''object''"










text \<open>
  The same type with identifiers, \<open>type T = { value: string; next: T }\<close>: the property
  \<open>next\<close> carries the identifier of the root.
\<close>

definition linkedRoot :: LocalizedTypeInfo where
  "linkedRoot = compositeInfo ''1'' ''object''"



text \<open>A type with two recursion points, \<open>type T = { left: T; right: T }\<close>.\<close>

definition forkServices :: services where
  "forkServices = tableServices [(linkedRoot,
     [ChildInfo (linkedRoot \<lparr> symbol := Some (propertySymbol ''left'') \<rparr>),
      ChildInfo (linkedRoot \<lparr> symbol := Some (propertySymbol ''right'') \<rparr>)])]"

text \<open>
  A reference node as the tree builder leaves it, with its \<open>locations\<close>, and services
  that resolve that location to the primitive type \<open>string\<close>.
\<close>

definition referenceInfo :: LocalizedTypeInfo where
  "referenceInfo = no_info \<lparr> id' := Some ''7'', kind := Some ''reference'',
     locations := Some [(''types.ts'', 3, 12)] \<rparr>"

definition referenceServices :: services where
  "referenceServices = \<lparr>
     getTypeTreeAtLocation = (\<lambda>loc. if loc = Some (''types.ts'', 3, 12)
        then Some \<lparr> typeId = ''8'', symbolMeta = Some ''Target'' \<rparr> else None),
     localize = (\<lambda>ti. case ti of None \<Rightarrow> None
        | Some t \<Rightarrow> Some (primitiveInfo (typeId t) ''string'')),
     localizeChildren = (\<lambda>info. []) \<rparr>"





section \<open>Properties of the display metadata\<close>

lemma primitiveIcon_throws:
  "(\<exists>e. primitiveIcon pk = Inl e) \<longleftrightarrow> pk \<notin> handledPrimitiveKinds"
  unfolding primitiveIcon_def handledPrimitiveKinds_def
  by auto

lemma primitiveIcon_error:
  "primitiveIcon pk = Inl e \<Longrightarrow> e = Error ''Unhandled primitive case''"
  unfolding primitiveIcon_def by (auto split: if_splits)

lemma kindIcon_throws:
  "(\<exists>e. kindIcon info = Inl e) \<longleftrightarrow>
     kind info = Some ''primitive'' \<and> primitiveKind info \<notin> handledPrimitiveKinds"
  using primitiveIcon_throws[of "primitiveKind info"]
  by (simp add: kindIcon_def Let_def)

lemma kindIcon_error:
  "kindIcon info = Inl e \<Longrightarrow> e = Error ''Unhandled primitive case''"
  using primitiveIcon_error[of "primitiveKind info" e]
  by (simp add: kindIcon_def Let_def split: if_splits)

lemma kindIcon_default:
  "kind info \<notin> handledIconKinds \<Longrightarrow> kindIcon info = Inr (''symbol-misc'', None)"
  by (simp add: kindIcon_def handledIconKinds_def Let_def)

lemma getIconIds_throws:
  "(\<exists>e. getIconIds info = Inl e) \<longleftrightarrow>
     \<not> (case symbol info of None \<Rightarrow> False | Some s \<Rightarrow> property s \<or> isArgument s)
      \<and> purpose info \<noteq> Some ''class_constructor''
      \<and> kind info = Some ''primitive''
      \<and> primitiveKind info \<notin> handledPrimitiveKinds"
  using kindIcon_throws[of info]
  by (auto simp: getIconIds_def split: option.splits)

lemma getIconIds_error:
  "getIconIds info = Inl e \<Longrightarrow> e = Error ''Unhandled primitive case''"
  using kindIcon_error[of info e]
  by (simp add: getIconIds_def split: if_splits)

lemma getIcon_throws:
  "(\<exists>e. getIcon cfg info = Inl e) \<longleftrightarrow> iconThrows cfg info"
  using getIconIds_throws[of info]
  by (auto simp: getIcon_def iconThrows_def Let_def split: sum.splits)

lemma getIcon_error:
  "getIcon cfg info = Inl e \<Longrightarrow> e = Error ''Unhandled primitive case''"
  using getIconIds_error[of info e]
  by (simp add: getIcon_def Let_def split: if_splits sum.splits)

lemma getMeta_throws:
  "(\<exists>e. getMeta cfg info depth = Inl e) \<longleftrightarrow> iconThrows cfg info"
  using getIcon_throws[of cfg info]
  by (auto simp: getMeta_def Let_def split: sum.splits)

lemma getMeta_error:
  "getMeta cfg info depth = Inl e \<Longrightarrow> e = Error ''Unhandled primitive case''"
  using getIcon_error[of cfg info e]
  by (simp add: getMeta_def Let_def split: sum.splits)

lemma getMeta_returns:
  "\<not> iconThrows cfg info \<Longrightarrow> \<exists>m. getMeta cfg info depth = Inr m"
  using getMeta_throws[of cfg info depth]
  by (cases "getMeta cfg info depth") auto


lemma getIcon_futureKind:
  "kind info \<notin> handledIconKinds \<Longrightarrow> \<not> iconThrows cfg info"
  by (auto simp: iconThrows_def handledIconKinds_def)

text \<open>
  C8, the claim as it stands: computing the display metadata never throws, whatever kind
  and kind-specific metadata the node carries. It fails at a primitive node that carries
  no primitive kind: with icons enabled the icon lookup reaches its
  \<open>throw new Error("Unhandled primitive case")\<close>, and \<open>getMeta\<close> throws.
\<close>

theorem getMeta_throws_counterexample:
  "getMeta exampleConfig barePrimitive 1 = Inl (Error ''Unhandled primitive case'')"
  by (simp add: getMeta_def getIcon_def getIconIds_def kindIcon_def primitiveIcon_def
      exampleConfig_def barePrimitive_def no_info_def Let_def)

text \<open>
  C8, amended: a kind that the icon lookup does not list gets the default icon
  \<open>symbol-misc\<close> and \<open>getMeta\<close> returns for it. \<open>getMeta\<close> returns for every node but
  one sort: it throws \<open>Unhandled primitive case\<close> exactly when icons are enabled, the
  node's symbol is neither a property nor an argument, its purpose is not
  \<open>class_constructor\<close>, its kind is \<open>primitive\<close> and its primitive kind is absent or not
  one of the twelve listed ones.
\<close>

theorem getMeta_total_amended:
  "(kind info \<notin> handledIconKinds \<longrightarrow>
      kindIcon info = Inr (''symbol-misc'', None) \<and> (\<exists>m. getMeta cfg info depth = Inr m))
   \<and> ((\<exists>m. getMeta cfg info depth = Inr m) \<longleftrightarrow> \<not> iconThrows cfg info)
   \<and> (iconThrows cfg info \<longleftrightarrow>
        getMeta cfg info depth = Inl (Error ''Unhandled primitive case''))"
proof (intro conjI impI)
  assume k: "kind info \<notin> handledIconKinds"
  then show "kindIcon info = Inr (''symbol-misc'', None)" by (rule kindIcon_default)
  from k have "\<not> iconThrows cfg info" by (rule getIcon_futureKind)
  then show "\<exists>m. getMeta cfg info depth = Inr m" by (rule getMeta_returns)
next
  show "(\<exists>m. getMeta cfg info depth = Inr m) \<longleftrightarrow> \<not> iconThrows cfg info"
    using getMeta_throws[of cfg info depth] getMeta_returns[of cfg info depth] by auto
next
  show "iconThrows cfg info \<longleftrightarrow> getMeta cfg info depth = Inl (Error ''Unhandled primitive case'')"
    using getMeta_throws[of cfg info depth] getMeta_error[of cfg info depth] by blast
qed

theorem getMeta_total_amended_witness:
  "kind futureKindInfo \<notin> handledIconKinds
   \<and> kindIcon futureKindInfo = Inr (''symbol-misc'', None)
   \<and> (\<exists>m. getMeta exampleConfig futureKindInfo 1 = Inr m)
   \<and> iconThrows exampleConfig barePrimitive
   \<and> getMeta exampleConfig barePrimitive 1 = Inl (Error ''Unhandled primitive case'')"
proof -
  have k: "kind futureKindInfo \<notin> handledIconKinds"
    by (simp add: futureKindInfo_def no_info_def handledIconKinds_def)
  have t: "iconThrows exampleConfig barePrimitive"
    by (simp add: iconThrows_def exampleConfig_def barePrimitive_def no_info_def
        handledPrimitiveKinds_def)
  show ?thesis
    using k t getMeta_total_amended[of futureKindInfo exampleConfig 1]
      getMeta_total_amended[of barePrimitive exampleConfig 1]
    by blast
qed









section \<open>Properties of the flattener\<close>

subsection \<open>Schedules and results\<close>

lemma resume_idle:
  "pending t = 0 \<Longrightarrow> resume sv k t seenRefs = (t, seenRefs)"
  "sum_list (map pending ts) = 0 \<Longrightarrow> resumeList sv k ts seenRefs = (ts, seenRefs)"
  by (induction sv k t seenRefs and sv k ts seenRefs rule: resume_resumeList.induct) auto

lemma run_idle: "pending t = 0 \<Longrightarrow> run sv ks (t, seenRefs) = (t, seenRefs)"
  by (induction ks) (simp_all add: resume_idle)














lemma start_fresh:
  "start info {} = (dispatch info, if has_id info then {the (id' info)} else {})"
  by (simp add: start_def)

lemma flatten_started:
  "generateFlattenedTypeDefinition sv sched info =
     settle (fst (run sv sched (dispatch info, if has_id info then {the (id' info)} else {})))"
  by (simp add: generateFlattenedTypeDefinition_def start_fresh)

lemma flatten_Settled:
  "dispatch info = Settled s \<Longrightarrow> generateFlattenedTypeDefinition sv sched info = Text s"
  by (simp add: flatten_started run_idle)












lemma dispatch_reference_unguarded:
  "kind info = Some ''reference'' \<Longrightarrow> \<not> location info \<Longrightarrow> dispatch info = Settled ''any''"
  by (simp add: dispatch_def)


















lemma flatten_object_error_markers:
  "generateFlattenedTypeDefinition (tableServices [(abObject, [ChildError])]) [0] abObject
     = Text ''{  }''"
  by code_simp

subsection \<open>The visited set\<close>













subsection \<open>Cycles\<close>

















lemma flatten_two_recursion_points:
  "generateFlattenedTypeDefinition forkServices [0] linkedRoot =
     Text ''{ left: any // Circular reference; right: any // Circular reference }''"
  by code_simp


subsection \<open>References and failures\<close>

lemma flatten_reference_without_location:
  "kind info = Some ''reference'' \<Longrightarrow> \<not> location info \<Longrightarrow>
     generateFlattenedTypeDefinition sv sched info = Text ''any''"
  by (intro flatten_Settled dispatch_reference_unguarded)

text \<open>
  C2: the branch for references tests \<open>info.location\<close> and then resolves
  \<open>info.locations[0]\<close>. A reference node carries \<open>locations\<close>; with no field \<open>location\<close>
  the branch is passed over and the node falls through to the last line, \<open>any\<close>:
  neither the resolved type nor the text for a failed resolution. The same node with a
  truthy \<open>location\<close> is resolved, or gives \<open>any // Failed to resolve reference\<close> where the
  services resolve nothing.
\<close>

theorem flatten_reference_failing_input:
  "generateFlattenedTypeDefinition referenceServices [0] referenceInfo = Text ''any''
   \<and> generateFlattenedTypeDefinition (tableServices []) [0] referenceInfo = Text ''any''
   \<and> generateFlattenedTypeDefinition referenceServices [0]
        (referenceInfo \<lparr> location := True \<rparr>) = Text ''string''
   \<and> generateFlattenedTypeDefinition (tableServices []) [0]
        (referenceInfo \<lparr> location := True \<rparr>) = Text ''any // Failed to resolve reference''"
proof (intro conjI)
  have k: "kind referenceInfo = Some ''reference''" and l: "\<not> location referenceInfo"
    by (simp_all add: referenceInfo_def no_info_def)
  show "generateFlattenedTypeDefinition referenceServices [0] referenceInfo = Text ''any''"
    using k l by (rule flatten_reference_without_location)
  show "generateFlattenedTypeDefinition (tableServices []) [0] referenceInfo = Text ''any''"
    using k l by (rule flatten_reference_without_location)
  show "generateFlattenedTypeDefinition referenceServices [0]
        (referenceInfo \<lparr> location := True \<rparr>) = Text ''string''"
    by code_simp
  show "generateFlattenedTypeDefinition (tableServices []) [0]
        (referenceInfo \<lparr> location := True \<rparr>) = Text ''any // Failed to resolve reference''"
    by code_simp
qed










end
